theory Spec2Isabelle
  imports Complex_Main
begin

section \<open>JavaScript values as seen by \<open>src/option.ts\<close>\<close>

text \<open>
  The module wraps arbitrary host values, compares them with \<open>===\<close> and hands them
  to caller-supplied functions, so the embedding starts with the host's values.
  A number is identified by its numeric value (so \<open>+0\<close> and \<open>-0\<close>, which are
  \<open>===\<close>, coincide); \<open>NaN\<close> is kept apart because \<open>option.ts\<close> tests for it.
  An Option is an object the module has built with \<open>new OptionType\<close>; it is frozen
  by its constructor (\<open>Object.freeze(this)\<close>, line 21), so the reference carries the
  two fields along with the address. Every other object (plain objects, arrays,
  functions, results, promises, proxies, objects made by the caller from the
  prototype or the symbols of an Option) is a reference \<open>Obj a\<close> to its address;
  what such an object does when the module inspects it is given by the host, below.
\<close>

type_synonym addr = nat

datatype jsnum = NaN | Finite rat | Infinity | NegInfinity

datatype jsval =
    Undefined
  | Null
  | Bool bool
  | Num jsnum
  | Str string
  | BigInt int
  | Sym nat
  | Obj addr
  | OptV opt
and opt = OptionType (addr_of: addr) (Val: jsval) (Is: bool)

text \<open>
  What a \<open>throw\<close> carries. \<open>ErrorObject n m\<close> is an instance of an error class:
  \<open>n\<close> is its \<open>name\<close> property (\<open>"Error"\<close> for \<open>new Error(msg)\<close>) and \<open>m\<close> its
  \<open>message\<close>. \<open>TypeError\<close> is the error the engine itself raises when a property
  of \<open>null\<close> or \<open>undefined\<close> is read or a non-function is called; its message is
  engine-specific and not modelled. \<open>Thrown v\<close> is any other thrown value.
\<close>

datatype exn = ErrorObject string string | TypeError | Thrown jsval

text \<open>
  The mutable part of the host: the next unused object address and the contents of
  the arrays allocated so far.
\<close>

record heap =
  nxt :: addr
  arrays :: "addr \<Rightarrow> jsval list option"

text \<open>
  A computation runs on a heap and either returns (\<open>Inr\<close>) or throws (\<open>Inl\<close>);
  the heap it leaves behind is kept in both cases. Caller-supplied functions are
  computations: they may allocate, mutate and throw.
\<close>

type_synonym 'a comp = "heap \<Rightarrow> (exn + 'a) \<times> heap"

definition ret :: "'a \<Rightarrow> 'a comp" where
  "ret v h = (Inr v, h)"

definition throw :: "exn \<Rightarrow> 'a comp" where
  "throw e h = (Inl e, h)"

definition bind :: "'a comp \<Rightarrow> ('a \<Rightarrow> 'b comp) \<Rightarrow> 'b comp" where
  "bind m k h = (case m h of (Inl e, h') \<Rightarrow> (Inl e, h') | (Inr v, h') \<Rightarrow> k v h')"

text \<open>The strict equality \<open>a === b\<close>: \<open>NaN\<close> equals nothing, objects are equal
  when they are the same object, primitives when they are the same value.\<close>

definition strict_eq :: "jsval \<Rightarrow> jsval \<Rightarrow> bool" where
  "strict_eq a b =
     (case (a, b) of
        (Num x, Num y) \<Rightarrow> x \<noteq> NaN \<and> x = y
      | (OptV x, OptV y) \<Rightarrow> addr_of x = addr_of y
      | _ \<Rightarrow> a = b)"

text \<open>
  The module inspects a value it was given in five ways: it reads the properties
  keyed by its symbols \<open>Is\<close> and \<open>Val\<close> (lines 3-4), tests \<open>instanceof OptionType\<close>
  and \<open>instanceof Promise\<close>, calls the method \<open>then\<close> with two functions, and calls
  the value as a function. On an object that is not an Option, each of these runs
  code of the caller: a proxy's traps, a getter, the function itself. It may return
  anything, change the heap, or throw. The host gives, for the object at an address,
  the computation each inspection runs.
\<close>

record host =
  read_Is :: "addr \<Rightarrow> jsval comp"
  read_Val :: "addr \<Rightarrow> jsval comp"
  instanceof_OptionType_at :: "addr \<Rightarrow> bool comp"
  instanceof_Promise_at :: "addr \<Rightarrow> bool comp"
  call_then :: "addr \<Rightarrow> (jsval \<Rightarrow> opt comp) \<Rightarrow> (jsval \<Rightarrow> opt comp) \<Rightarrow> jsval comp"
  call :: "addr \<Rightarrow> jsval list \<Rightarrow> jsval comp"

text \<open>
  \<open>cmp[Is]\<close> and \<open>cmp[Val]\<close>. An Option holds the two properties itself. Reading a
  property of \<open>null\<close> or \<open>undefined\<close> raises a \<open>TypeError\<close>. A primitive has no
  property keyed by a symbol of the module, so the read gives \<open>undefined\<close>. On any
  other object the read is the host's.
\<close>

fun get_Is :: "host \<Rightarrow> jsval \<Rightarrow> jsval comp" where
  "get_Is H Undefined = throw TypeError"
| "get_Is H Null = throw TypeError"
| "get_Is H (OptV c) = ret (Bool (Is c))"
| "get_Is H (Obj a) = read_Is H a"
| "get_Is H _ = ret Undefined"

fun get_Val :: "host \<Rightarrow> jsval \<Rightarrow> jsval comp" where
  "get_Val H Undefined = throw TypeError"
| "get_Val H Null = throw TypeError"
| "get_Val H (OptV c) = ret (Val c)"
| "get_Val H (Obj a) = read_Val H a"
| "get_Val H _ = ret Undefined"


fun instanceof_Promise :: "host \<Rightarrow> jsval \<Rightarrow> bool comp" where
  "instanceof_Promise H (Obj a) = instanceof_Promise_at H a"
| "instanceof_Promise H _ = ret False"

text \<open>
  \<open>fn.then(f, g)\<close> and \<open>fn(...args)\<close>: on an object they are the host's; a primitive
  and an Option have no method \<open>then\<close> and are not callable, so both raise a
  \<open>TypeError\<close>, as does reading \<open>then\<close> from \<open>null\<close> or \<open>undefined\<close>.
\<close>

fun then_value ::
  "host \<Rightarrow> jsval \<Rightarrow> (jsval \<Rightarrow> opt comp) \<Rightarrow> (jsval \<Rightarrow> opt comp) \<Rightarrow> jsval comp" where
  "then_value H (Obj a) f g = call_then H a f g"
| "then_value H _ f g = throw TypeError"

fun call_value :: "host \<Rightarrow> jsval \<Rightarrow> jsval list \<Rightarrow> jsval comp" where
  "call_value H (Obj a) args = call H a args"
| "call_value H _ args = throw TypeError"

section \<open>The class \<open>OptionType\<close>\<close>

text \<open>\<open>new OptionType(val, some)\<close> (lines 18-22): a fresh frozen object.\<close>

definition new_OptionType :: "jsval \<Rightarrow> bool \<Rightarrow> opt comp" where
  "new_OptionType val some h = (Inr (OptionType (nxt h) val some), h\<lparr>nxt := Suc (nxt h)\<rparr>)"

text \<open>\<open>Some(val)\<close> (lines 425-427).\<close>

definition Some_opt :: "jsval \<Rightarrow> opt comp" where
  "Some_opt val = new_OptionType val True"

text \<open>\<open>None\<close> (line 439) is built once, when the module is loaded: the object at
  address 0. A program starts on a heap whose first unused address is 1.\<close>

definition None_opt :: opt where
  "None_opt = OptionType 0 Undefined False"

definition init_heap :: heap where
  "init_heap = \<lparr>nxt = 1, arrays = (\<lambda>a. None)\<rparr>"



text \<open>\<open>eq(cmp)\<close> (lines 71-73) and \<open>neq(cmp)\<close> (lines 90-92). The parameter is
  declared \<open>Option<T>\<close>; the definitions say what the body does on any value.
  \<open>&&\<close> and \<open>||\<close> evaluate their right operand only when needed.\<close>

definition eq_opt :: "host \<Rightarrow> opt \<Rightarrow> jsval \<Rightarrow> bool comp" where
  "eq_opt H this cmp =
     bind (get_Is H cmp) (\<lambda>i.
       if strict_eq (Bool (Is this)) i
       then bind (get_Val H cmp) (\<lambda>v. ret (strict_eq (Val this) v))
       else ret False)"

definition neq :: "host \<Rightarrow> opt \<Rightarrow> jsval \<Rightarrow> bool comp" where
  "neq H this cmp =
     bind (get_Is H cmp) (\<lambda>i.
       if \<not> strict_eq (Bool (Is this)) i
       then ret True
       else bind (get_Val H cmp) (\<lambda>v. ret (\<not> strict_eq (Val this) v)))"

text \<open>\<open>isSome()\<close> (lines 106-108) and \<open>isNone()\<close> (lines 122-124).\<close>

definition isSome :: "opt \<Rightarrow> bool" where
  "isSome this = Is this"

definition isNone :: "opt \<Rightarrow> bool" where
  "isNone this = (\<not> Is this)"

text \<open>\<open>expect(msg)\<close> (lines 140-146) and \<open>unwrap()\<close> (lines 163-165).\<close>

definition expect :: "opt \<Rightarrow> string \<Rightarrow> exn + jsval" where
  "expect this msg = (if Is this then Inr (Val this) else Inl (ErrorObject ''Error'' msg))"

definition unwrap :: "opt \<Rightarrow> exn + jsval" where
  "unwrap this = expect this ''Failed to unwrap Option (found None)''"


definition unwrapOrElse :: "opt \<Rightarrow> jsval comp \<Rightarrow> jsval comp" where
  "unwrapOrElse this f = (if Is this then ret (Val this) else f)"

definition unwrapUnchecked :: "opt \<Rightarrow> jsval" where
  "unwrapUnchecked this = Val this"


definition orElse :: "opt \<Rightarrow> jsval comp \<Rightarrow> jsval comp" where
  "orElse this f = (if Is this then ret (OptV this) else f)"


definition andThen :: "opt \<Rightarrow> (jsval \<Rightarrow> jsval comp) \<Rightarrow> jsval comp" where
  "andThen this f = (if Is this then f (Val this) else ret (OptV None_opt))"

text \<open>\<open>map(f)\<close> (lines 308-310), \<open>mapOr(def, f)\<close> (lines 329-331) and
  \<open>mapOrElse(def, f)\<close> (lines 346-348).\<close>

definition map_opt :: "opt \<Rightarrow> (jsval \<Rightarrow> jsval comp) \<Rightarrow> opt comp" where
  "map_opt this f =
     (if Is this then bind (f (Val this)) (\<lambda>u. new_OptionType u True) else ret None_opt)"





section \<open>The functions of the module\<close>


text \<open>\<open>Option.from(val)\<close> (lines 460-464) and the callable \<open>Option(val)\<close>
  (lines 411-413).\<close>

definition from_opt :: "jsval \<Rightarrow> opt comp" where
  "from_opt val =
     (if strict_eq val Undefined \<or> strict_eq val Null \<or> \<not> strict_eq val val
      then ret None_opt
      else Some_opt val)"

definition Option_fn :: "jsval \<Rightarrow> opt comp" where
  "Option_fn val = from_opt val"

text \<open>\<open>Option.safe(fn, ...args)\<close> (lines 521-537). The test \<open>fn instanceof Promise\<close>
  comes first and is outside the \<open>try\<close>. When it is true, the result is what
  \<open>fn.then\<close> returns on the two arrow functions \<open>(value) => Some(value)\<close> and
  \<open>() => None\<close>, and \<open>fn\<close> is not called. When it is false, the \<open>try\<close> block calls
  \<open>fn\<close> and wraps what it returns, and the \<open>catch\<close> block drops what it threw.\<close>

definition safe :: "host \<Rightarrow> jsval \<Rightarrow> jsval list \<Rightarrow> jsval comp" where
  "safe H fn args =
     bind (instanceof_Promise H fn) (\<lambda>p.
       if p then then_value H fn Some_opt (\<lambda>u. ret None_opt)
       else (\<lambda>h. case call_value H fn args h of
               (Inr v, h') \<Rightarrow> bind (Some_opt v) (\<lambda>s. ret (OptV s)) h'
             | (Inl err, h') \<Rightarrow> ret (OptV None_opt) h'))"

text \<open>\<open>Option.all(...options)\<close> (lines 560-571). \<open>some = []\<close> allocates the array
  before the loop; \<open>push\<close> appends to it in place (the loop only pushes to the
  array it allocated, so the branch of \<open>push\<close> for an address without an array is
  never taken there). The parameter is declared \<open>Option<any>[]\<close>; the branch for
  another value is that of a value without a method \<open>isSome\<close>, on which
  \<open>option.isSome()\<close> raises a \<open>TypeError\<close>.\<close>

definition new_array :: "heap \<Rightarrow> addr \<times> heap" where
  "new_array h = (nxt h, h\<lparr>nxt := Suc (nxt h), arrays := (arrays h)(nxt h \<mapsto> [])\<rparr>)"

definition push :: "addr \<Rightarrow> jsval \<Rightarrow> heap \<Rightarrow> heap" where
  "push a v h =
     h\<lparr>arrays := (arrays h)(a \<mapsto> (case arrays h a of Some xs \<Rightarrow> xs @ [v] | None \<Rightarrow> [v]))\<rparr>"

fun all_loop :: "addr \<Rightarrow> jsval list \<Rightarrow> opt comp" where
  "all_loop some [] h = Some_opt (Obj some) h"
| "all_loop some (option # options) h =
     (case option of
        OptV c \<Rightarrow>
          if isSome c then all_loop some options (push some (unwrapUnchecked c) h)
          else ret None_opt h
      | _ \<Rightarrow> throw TypeError h)"

definition all_opt :: "jsval list \<Rightarrow> opt comp" where
  "all_opt options h = (case new_array h of (some, h') \<Rightarrow> all_loop some options h')"

text \<open>\<open>Option.any(...options)\<close> (lines 590-599).\<close>

fun any_opt :: "jsval list \<Rightarrow> exn + jsval" where
  "any_opt [] = Inr (OptV None_opt)"
| "any_opt (option # options) =
     (case option of
        OptV c \<Rightarrow> if isSome c then Inr option else any_opt options
      | _ \<Rightarrow> Inl TypeError)"

section \<open>Expressions the laws are stated with\<close>

text \<open>A computation returns on a heap when it does not throw there.\<close>

definition returns :: "'a comp \<Rightarrow> heap \<Rightarrow> bool" where
  "returns m h = (case fst (m h) of Inr v \<Rightarrow> True | Inl e \<Rightarrow> False)"

text \<open>The arrow function \<open>v => v\<close>, a host function without effects that computes
  \<open>f\<close>, and the arrow function \<open>v => g(f(v))\<close>.\<close>

definition ident :: "jsval \<Rightarrow> jsval comp" where
  "ident v = ret v"

definition pure_fn :: "(jsval \<Rightarrow> jsval) \<Rightarrow> jsval \<Rightarrow> jsval comp" where
  "pure_fn f v = ret (f v)"

definition compose :: "(jsval \<Rightarrow> jsval comp) \<Rightarrow> (jsval \<Rightarrow> jsval comp) \<Rightarrow> jsval \<Rightarrow> jsval comp" where
  "compose f g v = bind (f v) g"

text \<open>The arrow function \<open>v => ({})\<close>: each call returns a new object.\<close>

definition fresh_object :: "jsval \<Rightarrow> jsval comp" where
  "fresh_object v h = (Inr (Obj (nxt h)), h\<lparr>nxt := Suc (nxt h)\<rparr>)"

text \<open>The expressions \<open>x.map(v => v).eq(x)\<close> and
  \<open>x.map(f).map(g).eq(x.map(v => g(f(v))))\<close>, evaluated left to right.\<close>

definition map_ident_eq :: "host \<Rightarrow> opt \<Rightarrow> bool comp" where
  "map_ident_eq H x = bind (map_opt x ident) (\<lambda>y. eq_opt H y (OptV x))"

definition map_compose_eq ::
  "host \<Rightarrow> opt \<Rightarrow> (jsval \<Rightarrow> jsval comp) \<Rightarrow> (jsval \<Rightarrow> jsval comp) \<Rightarrow> bool comp" where
  "map_compose_eq H x f g =
     bind (bind (map_opt x f) (\<lambda>y. map_opt y g)) (\<lambda>l.
       bind (map_opt x (compose f g)) (\<lambda>r. eq_opt H l (OptV r)))"

text \<open>The function \<open>mightThrow\<close> of the documentation of \<open>safe\<close> (lines 480-485):
  \<open>if (throws)\<close> tests whether its first argument is truthy, and a missing argument
  is \<open>undefined\<close>.\<close>

fun truthy :: "jsval \<Rightarrow> bool" where
  "truthy Undefined = False"
| "truthy Null = False"
| "truthy (Bool b) = b"
| "truthy (Num n) = (n \<noteq> NaN \<and> n \<noteq> Finite 0)"
| "truthy (Str s) = (s \<noteq> [])"
| "truthy (BigInt i) = (i \<noteq> 0)"
| "truthy _ = True"

definition mightThrow :: "jsval list \<Rightarrow> jsval comp" where
  "mightThrow args =
     (if truthy (case args of [] \<Rightarrow> Undefined | throws # _ \<Rightarrow> throws)
      then throw (ErrorObject ''Error'' ''Throw'')
      else ret (Str ''Hello World''))"

text \<open>
  Hosts the laws are tried on. In \<open>plain_host\<close> every object is a plain object: it
  has no property keyed by a symbol of the module and no method \<open>then\<close>, its
  prototype chain holds neither \<open>OptionType\<close> nor \<open>Promise\<close>, and it is not callable.
  In \<open>function_host\<close> every object is the function \<open>mightThrow\<close>. In
  \<open>promise_chain_host\<close> every object is \<open>mightThrow\<close> after
  \<open>Object.setPrototypeOf(mightThrow, Promise.prototype)\<close>: it is an instance of
  \<open>Promise\<close>, and its method \<open>then\<close>, that of promises, raises a \<open>TypeError\<close> on a
  receiver that is not a promise. In \<open>proxy_host\<close> every object is a proxy of
  \<open>mightThrow\<close> whose \<open>get\<close> and \<open>getPrototypeOf\<close> traps throw the string
  \<open>"trap"\<close>. In \<open>forged_host\<close> every object is \<open>{[Is]: true, [Val]: 1}\<close>, built with
  the symbols read from the exported \<open>None\<close>.
\<close>

definition plain_host :: host where
  "plain_host =
     \<lparr>read_Is = (\<lambda>a. ret Undefined), read_Val = (\<lambda>a. ret Undefined),
      instanceof_OptionType_at = (\<lambda>a. ret False), instanceof_Promise_at = (\<lambda>a. ret False),
      call_then = (\<lambda>a f g. throw TypeError), call = (\<lambda>a args. throw TypeError)\<rparr>"

definition function_host :: host where
  "function_host = plain_host\<lparr>call := (\<lambda>a. mightThrow)\<rparr>"

definition promise_chain_host :: host where
  "promise_chain_host = function_host\<lparr>instanceof_Promise_at := (\<lambda>a. ret True)\<rparr>"

definition proxy_host :: host where
  "proxy_host =
     \<lparr>read_Is = (\<lambda>a. throw (Thrown (Str ''trap''))),
      read_Val = (\<lambda>a. throw (Thrown (Str ''trap''))),
      instanceof_OptionType_at = (\<lambda>a. throw (Thrown (Str ''trap''))),
      instanceof_Promise_at = (\<lambda>a. throw (Thrown (Str ''trap''))),
      call_then = (\<lambda>a f g. throw (Thrown (Str ''trap''))),
      call = (\<lambda>a. mightThrow)\<rparr>"


section \<open>Strict equality\<close>

lemma strict_eq_Undefined: "strict_eq v Undefined = (v = Undefined)"
  by (cases v) (simp_all add: strict_eq_def)

lemma strict_eq_Null: "strict_eq v Null = (v = Null)"
  by (cases v) (simp_all add: strict_eq_def)

lemma strict_eq_refl_iff: "strict_eq v v = (v \<noteq> Num NaN)"
  by (cases v) (auto simp add: strict_eq_def)

lemma strict_eq_Bool: "strict_eq (Bool b) w = (w = Bool b)"
  by (cases w) (auto simp add: strict_eq_def)

section \<open>Unwrapping\<close>

text \<open>
  C1, as the code has it. \<open>expect(msg)\<close> returns the payload of a \<open>Some\<close>; on a
  \<open>None\<close> it throws \<open>new Error(msg)\<close>, an instance of the host's generic \<open>Error\<close>
  class whose message is \<open>msg\<close>. \<open>unwrap()\<close> does the same with the fixed message
  \<open>"Failed to unwrap Option (found None)"\<close>. Nothing else is thrown.
\<close>

theorem expect_unwrap_raise_Error:
  "expect (OptionType a v True) msg = Inr v
   \<and> expect (OptionType a v False) msg = Inl (ErrorObject ''Error'' msg)
   \<and> unwrap (OptionType a v True) = Inr v
   \<and> unwrap (OptionType a v False) =
       Inl (ErrorObject ''Error'' ''Failed to unwrap Option (found None)'')"
  by (simp add: expect_def unwrap_def)

theorem expect_unwrap_raise_Error_witness:
  "expect (OptionType 1 (Num (Finite 1)) True) ''Is empty'' = Inr (Num (Finite 1))
   \<and> expect None_opt ''Is empty'' = Inl (ErrorObject ''Error'' ''Is empty'')
   \<and> unwrap (OptionType 1 (Num (Finite 1)) True) = Inr (Num (Finite 1))
   \<and> unwrap None_opt = Inl (ErrorObject ''Error'' ''Failed to unwrap Option (found None)'')"
  using expect_unwrap_raise_Error [of 1 "Num (Finite 1)" "''Is empty''"]
    expect_unwrap_raise_Error [of 0 Undefined "''Is empty''"]
  by (simp add: None_opt_def)

text \<open>The error \<open>None.expect("boom")\<close> throws is named \<open>Error\<close>, not
  \<open>UnwrapError\<close>: the module declares no error class of its own.\<close>

theorem expect_None_not_UnwrapError:
  "expect None_opt ''boom'' = Inl (ErrorObject ''Error'' ''boom'')
   \<and> expect None_opt ''boom'' \<noteq> Inl (ErrorObject ''UnwrapError'' ''boom'')"
  by (simp add: expect_def None_opt_def)

section \<open>Construction from a host value\<close>

text \<open>
  C3. \<open>Option.from(v)\<close> returns \<open>None\<close> exactly when \<open>v\<close> is \<open>undefined\<close>, \<open>null\<close>
  or \<open>NaN\<close>; for every other value it returns a new \<open>Some\<close> whose payload is \<open>v\<close>.
  The callable \<open>Option(v)\<close> is the same function.
\<close>

theorem from_opt_None_iff:
  "from_opt v h =
     (if v = Undefined \<or> v = Null \<or> v = Num NaN then (Inr None_opt, h)
      else (Inr (OptionType (nxt h) v True), h\<lparr>nxt := Suc (nxt h)\<rparr>))
   \<and> Option_fn v h = from_opt v h
   \<and> (fst (from_opt v h) = Inr None_opt) = (v = Undefined \<or> v = Null \<or> v = Num NaN)"
  by (simp add: from_opt_def Option_fn_def strict_eq_Undefined strict_eq_Null
      strict_eq_refl_iff ret_def Some_opt_def new_OptionType_def None_opt_def)

text \<open>The falsy values \<open>0\<close>, \<open>""\<close> and \<open>false\<close> are wrapped; \<open>NaN\<close>, \<open>null\<close> and
  \<open>undefined\<close> are not.\<close>

theorem from_opt_None_iff_witness:
  "fst (from_opt (Num (Finite 0)) init_heap) = Inr (OptionType 1 (Num (Finite 0)) True)
   \<and> fst (from_opt (Str []) init_heap) = Inr (OptionType 1 (Str []) True)
   \<and> fst (from_opt (Bool False) init_heap) = Inr (OptionType 1 (Bool False) True)
   \<and> fst (Option_fn (Num NaN) init_heap) = Inr None_opt
   \<and> fst (from_opt Null init_heap) = Inr None_opt
   \<and> fst (from_opt Undefined init_heap) = Inr None_opt"
  using from_opt_None_iff [of "Num (Finite 0)" init_heap]
    from_opt_None_iff [of "Str []" init_heap]
    from_opt_None_iff [of "Bool False" init_heap]
    from_opt_None_iff [of "Num NaN" init_heap]
    from_opt_None_iff [of Null init_heap]
    from_opt_None_iff [of Undefined init_heap]
  by (simp add: init_heap_def)

section \<open>Mapping\<close>

lemma map_ident_Some:
  "map_opt (OptionType a v True) ident h =
     (Inr (OptionType (nxt h) v True), h\<lparr>nxt := Suc (nxt h)\<rparr>)"
  by (simp add: map_opt_def ident_def bind_def ret_def new_OptionType_def)

lemma map_None: "map_opt None_opt f h = (Inr None_opt, h)"
  by (simp add: map_opt_def None_opt_def ret_def)

text \<open>On an Option, \<open>eq\<close> reads the two fields and compares: no code of the caller
  runs, whatever the host.\<close>

lemma eq_opt_OptV:
  "eq_opt H this (OptV c) h = (Inr (Is c = Is this \<and> strict_eq (Val this) (Val c)), h)"
  by (auto simp add: eq_opt_def bind_def ret_def strict_eq_Bool)

lemma neq_OptV:
  "neq H this (OptV c) h = (Inr (\<not> (Is c = Is this \<and> strict_eq (Val this) (Val c))), h)"
  by (auto simp add: neq_def bind_def ret_def strict_eq_Bool)

text \<open>
  C4, as the code has it. An Option is \<open>None\<close> or was built by
  \<open>new OptionType(v, true)\<close>. Mapping the identity over \<open>None\<close> gives \<open>None\<close>, and
  over a \<open>Some\<close> with payload \<open>v\<close> a new \<open>Some\<close> with payload \<open>v\<close>: the same
  discriminant and the same payload. \<open>x.map(v => v).eq(x)\<close> is true for \<open>None\<close> and
  for every \<open>Some\<close> whose payload is not \<open>NaN\<close>; for the payload \<open>NaN\<close> it is
  false, since \<open>eq\<close> compares payloads with \<open>===\<close>.
\<close>

theorem map_identity_unless_NaN:
  "map_ident_eq H (OptionType a v True) h = (Inr (v \<noteq> Num NaN), h\<lparr>nxt := Suc (nxt h)\<rparr>)
   \<and> map_ident_eq H None_opt h = (Inr True, h)
   \<and> fst (map_opt (OptionType a v True) ident h) = Inr (OptionType (nxt h) v True)
   \<and> fst (map_opt None_opt ident h) = Inr None_opt"
  by (simp add: map_ident_eq_def bind_def map_ident_Some map_None eq_opt_OptV
      strict_eq_refl_iff)
    (simp add: None_opt_def strict_eq_def)

theorem map_identity_unless_NaN_witness:
  "fst (map_ident_eq plain_host (OptionType 1 (Str ''a'') True) (init_heap\<lparr>nxt := 2\<rparr>)) =
     Inr True
   \<and> fst (map_ident_eq plain_host None_opt init_heap) = Inr True"
  using map_identity_unless_NaN [of plain_host 1 "Str ''a''" "init_heap\<lparr>nxt := 2\<rparr>"]
    map_identity_unless_NaN [of plain_host 1 "Str ''a''" init_heap]
  by simp

text \<open>\<open>Some(NaN).map(v => v).eq(Some(NaN))\<close> is false.\<close>

theorem map_identity_NaN_counterexample:
  "fst (map_ident_eq plain_host (OptionType 1 (Num NaN) True) (init_heap\<lparr>nxt := 2\<rparr>)) =
     Inr False"
  by (simp add: map_ident_eq_def bind_def map_ident_Some eq_opt_OptV strict_eq_refl_iff)

text \<open>
  C5, as the code has it. For functions \<open>f\<close> and \<open>g\<close> without effects, which
  return the identical value each time they are called on the same argument,
  \<open>x.map(f).map(g).eq(x.map(v => g(f(v))))\<close> is true for every Option \<open>x\<close>, except
  when \<open>x\<close> is a \<open>Some\<close> with payload \<open>v\<close> and \<open>g(f(v))\<close> is \<open>NaN\<close>: then it is false.
\<close>

theorem map_composition_pure:
  "fst (map_compose_eq H x (pure_fn f) (pure_fn g) h) =
     Inr (\<not> (Is x \<and> g (f (Val x)) = Num NaN))"
  by (cases "Is x")
    (simp_all add: map_compose_eq_def compose_def pure_fn_def bind_def map_opt_def ret_def
      new_OptionType_def eq_opt_OptV strict_eq_refl_iff None_opt_def)

theorem map_composition_pure_witness:
  "fst (map_compose_eq plain_host (OptionType 1 (Num (Finite 1)) True)
         (pure_fn (\<lambda>v. Str ''a'')) (pure_fn (\<lambda>v. Bool True)) (init_heap\<lparr>nxt := 2\<rparr>)) = Inr True
   \<and> fst (map_compose_eq plain_host None_opt
         (pure_fn (\<lambda>v. Str ''a'')) (pure_fn (\<lambda>v. Num NaN)) init_heap) = Inr True"
  using map_composition_pure [of plain_host "OptionType 1 (Num (Finite 1)) True"
      "\<lambda>v. Str ''a''" "\<lambda>v. Bool True" "init_heap\<lparr>nxt := 2\<rparr>"]
    map_composition_pure [of plain_host None_opt "\<lambda>v. Str ''a''" "\<lambda>v. Num NaN" init_heap]
  by (simp add: None_opt_def)

text \<open>With \<open>x = Some(1)\<close> and \<open>f = v => v\<close>, the law fails for \<open>g = v => NaN\<close> and
  for \<open>g = v => ({})\<close>, whose two calls return two different objects.\<close>

theorem map_composition_counterexample:
  "fst (map_compose_eq plain_host (OptionType 1 (Num (Finite 1)) True) ident
     (\<lambda>v. ret (Num NaN)) (init_heap\<lparr>nxt := 2\<rparr>)) = Inr False
   \<and> fst (map_compose_eq plain_host (OptionType 1 (Num (Finite 1)) True) ident fresh_object
     (init_heap\<lparr>nxt := 2\<rparr>)) = Inr False"
  by (simp add: map_compose_eq_def compose_def ident_def bind_def map_opt_def ret_def
      new_OptionType_def eq_opt_OptV fresh_object_def init_heap_def)
    (simp add: strict_eq_def)

section \<open>Aggregation\<close>

lemma push_arrays: "arrays h a = Some acc \<Longrightarrow> arrays (push a v h) a = Some (acc @ [v])"
  by (simp add: push_def)

lemma nxt_push: "nxt (push a v h) = nxt h"
  by (simp add: push_def)

lemma push_overwritten:
  "(push a v h)\<lparr>nxt := n, arrays := (arrays (push a v h))(a \<mapsto> xs)\<rparr> =
   h\<lparr>nxt := n, arrays := (arrays h)(a \<mapsto> xs)\<rparr>"
  by (simp add: push_def)

text \<open>The loop of \<open>all\<close> on arguments that are all \<open>Some\<close>: the payloads are
  appended, in order, to what the array holds.\<close>

lemma all_loop_Some:
  "list_all Is os \<Longrightarrow> arrays h a = Some acc \<Longrightarrow>
   all_loop a (map OptV os) h =
     (Inr (OptionType (nxt h) (Obj a) True),
      h\<lparr>nxt := Suc (nxt h), arrays := (arrays h)(a \<mapsto> acc @ map Val os)\<rparr>)"
proof (induction os arbitrary: h acc)
  case Nil
  then have "(arrays h)(a \<mapsto> acc) = arrays h" by (simp add: fun_upd_idem)
  then show ?case by (simp add: Some_opt_def new_OptionType_def)
next
  case (Cons c os)
  have p: "arrays (push a (Val c) h) a = Some (acc @ [Val c])"
    using Cons.prems(2) by (rule push_arrays)
  have r: "list_all Is os" using Cons.prems(1) by simp
  have "all_loop a (map OptV os) (push a (Val c) h) =
     (Inr (OptionType (nxt (push a (Val c) h)) (Obj a) True),
      (push a (Val c) h)\<lparr>nxt := Suc (nxt (push a (Val c) h)),
         arrays := (arrays (push a (Val c) h))(a \<mapsto> (acc @ [Val c]) @ map Val os)\<rparr>)"
    using r p by (rule Cons.IH)
  moreover have "Is c" using Cons.prems(1) by simp
  ultimately show ?case
    by (simp add: isSome_def unwrapUnchecked_def nxt_push push_overwritten)
      (rule heap.equality; simp add: fun_eq_iff)
qed

text \<open>The loop of \<open>all\<close> stops at the first argument that is not \<open>Some\<close>: what
  follows it is not looked at.\<close>

lemma all_loop_None:
  "list_all Is pre \<Longrightarrow> \<not> Is n \<Longrightarrow>
   all_loop a (map OptV pre @ OptV n # post) h =
     (Inr None_opt, foldl (\<lambda>h c. push a (Val c) h) h pre)"
  by (induction pre arbitrary: h) (simp_all add: isSome_def unwrapUnchecked_def ret_def)

lemma any_opt_None: "list_all isNone os \<Longrightarrow> any_opt (map OptV os) = Inr (OptV None_opt)"
  by (induction os) (simp_all add: isSome_def isNone_def)

lemma any_opt_first:
  "list_all isNone pre \<Longrightarrow> Is s \<Longrightarrow> any_opt (map OptV pre @ OptV s # post) = Inr (OptV s)"
  by (induction pre) (simp_all add: isSome_def isNone_def)

text \<open>
  C6. When every argument of \<open>Option.all\<close> is \<open>Some\<close>, the result is a new \<open>Some\<close>
  whose payload is a new array holding the payloads of the arguments in the order of
  the arguments. When the arguments \<open>pre\<close> are \<open>Some\<close> and the next one, \<open>n\<close>, is
  \<open>None\<close>, the result is \<open>None\<close> whatever follows \<open>n\<close>: the call returns the same
  result and leaves the same heap for any two lists of later arguments.
\<close>

theorem all_opt_in_order:
  "(list_all Is os \<longrightarrow>
      fst (all_opt (map OptV os) h) = Inr (OptionType (Suc (nxt h)) (Obj (nxt h)) True)
      \<and> arrays (snd (all_opt (map OptV os) h)) (nxt h) = Some (map Val os))
   \<and> (list_all Is pre \<and> isNone n \<longrightarrow>
      all_opt (map OptV pre @ OptV n # post) h = all_opt (map OptV pre @ OptV n # post') h
      \<and> fst (all_opt (map OptV pre @ OptV n # post) h) = Inr None_opt)"
proof (intro conjI impI)
  assume a: "list_all Is os"
  have "all_opt (map OptV os) h =
       (Inr (OptionType (Suc (nxt h)) (Obj (nxt h)) True),
        h\<lparr>nxt := Suc (Suc (nxt h)), arrays := (arrays h)(nxt h \<mapsto> map Val os)\<rparr>)"
    using all_loop_Some [OF a,
        of "h\<lparr>nxt := Suc (nxt h), arrays := (arrays h)(nxt h \<mapsto> [])\<rparr>" "nxt h" "[]"]
    by (simp add: all_opt_def new_array_def)
  then show "fst (all_opt (map OptV os) h) = Inr (OptionType (Suc (nxt h)) (Obj (nxt h)) True)"
    and "arrays (snd (all_opt (map OptV os) h)) (nxt h) = Some (map Val os)"
    by simp_all
next
  assume b: "list_all Is pre \<and> isNone n"
  then show "all_opt (map OptV pre @ OptV n # post) h =
      all_opt (map OptV pre @ OptV n # post') h"
    by (simp add: all_opt_def new_array_def all_loop_None isNone_def)
  from b show "fst (all_opt (map OptV pre @ OptV n # post) h) = Inr None_opt"
    by (simp add: all_opt_def new_array_def all_loop_None isNone_def)
qed

text \<open>With \<open>num(n) = n > 10 ? Some(n) : None\<close>: \<open>all(num(20), num(30), num(40))\<close> is
  \<open>Some([20, 30, 40])\<close>, and \<open>all(num(20), num(5), num(40))\<close> is \<open>None\<close>, as it is with
  anything else in the place of \<open>num(40)\<close>.\<close>

theorem all_opt_in_order_witness:
  "list_all Is [OptionType 1 (Num (Finite 20)) True, OptionType 2 (Num (Finite 30)) True,
       OptionType 3 (Num (Finite 40)) True]
   \<and> fst (all_opt [OptV (OptionType 1 (Num (Finite 20)) True),
         OptV (OptionType 2 (Num (Finite 30)) True),
         OptV (OptionType 3 (Num (Finite 40)) True)] (init_heap\<lparr>nxt := 4\<rparr>)) =
       Inr (OptionType 5 (Obj 4) True)
   \<and> arrays (snd (all_opt [OptV (OptionType 1 (Num (Finite 20)) True),
         OptV (OptionType 2 (Num (Finite 30)) True),
         OptV (OptionType 3 (Num (Finite 40)) True)] (init_heap\<lparr>nxt := 4\<rparr>))) 4 =
       Some [Num (Finite 20), Num (Finite 30), Num (Finite 40)]
   \<and> list_all Is [OptionType 1 (Num (Finite 20)) True] \<and> isNone None_opt
   \<and> all_opt [OptV (OptionType 1 (Num (Finite 20)) True), OptV None_opt,
         OptV (OptionType 2 (Num (Finite 40)) True)] (init_heap\<lparr>nxt := 3\<rparr>) =
       all_opt [OptV (OptionType 1 (Num (Finite 20)) True), OptV None_opt, Null]
         (init_heap\<lparr>nxt := 3\<rparr>)
   \<and> fst (all_opt [OptV (OptionType 1 (Num (Finite 20)) True), OptV None_opt,
         OptV (OptionType 2 (Num (Finite 40)) True)] (init_heap\<lparr>nxt := 3\<rparr>)) = Inr None_opt"
proof -
  have a: "list_all Is [OptionType 1 (Num (Finite 20)) True,
      OptionType 2 (Num (Finite 30)) True, OptionType 3 (Num (Finite 40)) True]"
    by simp
  have b: "list_all Is [OptionType 1 (Num (Finite 20)) True] \<and> isNone None_opt"
    by (simp add: isNone_def None_opt_def)
  note some = all_opt_in_order [where os = "[OptionType 1 (Num (Finite 20)) True,
        OptionType 2 (Num (Finite 30)) True, OptionType 3 (Num (Finite 40)) True]"
      and h = "init_heap\<lparr>nxt := 4\<rparr>", THEN conjunct1, THEN mp, OF a]
  note none = all_opt_in_order [where h = "init_heap\<lparr>nxt := 3\<rparr>"
      and pre = "[OptionType 1 (Num (Finite 20)) True]" and n = None_opt
      and post = "[OptV (OptionType 2 (Num (Finite 40)) True)]" and post' = "[Null]",
      THEN conjunct2, THEN mp, OF b]
  show ?thesis
    using a b some none [THEN conjunct1] none [THEN conjunct2] by simp
qed

text \<open>
  C7. \<open>Option.any\<close> returns the first argument that is \<open>Some\<close>: the argument itself,
  the object at the same address, and no object is allocated (the function does not
  touch the heap). What follows that argument is not looked at. When no argument is
  \<open>Some\<close>, it returns \<open>None\<close>.
\<close>

theorem any_opt_first_Some:
  "(list_all isNone pre \<and> isSome s \<longrightarrow>
      any_opt (map OptV pre @ OptV s # post) = Inr (OptV s))
   \<and> (list_all isNone os \<longrightarrow> any_opt (map OptV os) = Inr (OptV None_opt))"
  by (simp add: any_opt_None any_opt_first isSome_def)

text \<open>\<open>any(num(5), num(20), num(2))\<close> is the second argument, the \<open>Some(20)\<close> at
  address 1, and \<open>any(num(2), num(5), num(8))\<close> is \<open>None\<close>.\<close>

theorem any_opt_first_Some_witness:
  "list_all isNone [None_opt] \<and> isSome (OptionType 1 (Num (Finite 20)) True)
   \<and> any_opt [OptV None_opt, OptV (OptionType 1 (Num (Finite 20)) True), OptV None_opt] =
       Inr (OptV (OptionType 1 (Num (Finite 20)) True))
   \<and> list_all isNone [None_opt, None_opt, None_opt]
   \<and> any_opt [OptV None_opt, OptV None_opt, OptV None_opt] = Inr (OptV None_opt)"
proof -
  have n: "isNone None_opt" by (simp add: isNone_def None_opt_def)
  have s: "isSome (OptionType 1 (Num (Finite 20)) True)" by (simp add: isSome_def)
  show ?thesis
    using n s
      any_opt_first_Some [where pre = "[None_opt]" and s = "OptionType 1 (Num (Finite 20)) True"
        and post = "[OptV None_opt]" and os = "[None_opt, None_opt, None_opt]"]
    by simp
qed

text \<open>
  C10. With no argument, \<open>Option.all()\<close> returns a new \<open>Some\<close> whose payload is a new
  empty array, so \<open>all().isSome()\<close> is true, and \<open>Option.any()\<close> returns \<open>None\<close>.
\<close>

theorem all_any_empty:
  "fst (all_opt [] h) = Inr (OptionType (Suc (nxt h)) (Obj (nxt h)) True)
   \<and> arrays (snd (all_opt [] h)) (nxt h) = Some []
   \<and> isSome (OptionType (Suc (nxt h)) (Obj (nxt h)) True)
   \<and> any_opt [] = Inr (OptV None_opt)
   \<and> isNone None_opt"
  by (simp add: all_opt_def new_array_def Some_opt_def new_OptionType_def isSome_def
      isNone_def None_opt_def)

theorem all_any_empty_witness:
  "fst (all_opt [] init_heap) = Inr (OptionType 2 (Obj 1) True)
   \<and> arrays (snd (all_opt [] init_heap)) 1 = Some []"
  using all_any_empty [of init_heap] by (simp add: init_heap_def)

section \<open>Capturing a throw\<close>

lemma safe_not_Promise:
  "instanceof_Promise H fn h = (Inr False, h') \<Longrightarrow>
   safe H fn args h =
     (case call_value H fn args h' of
        (Inr v, h'') \<Rightarrow> (Inr (OptV (OptionType (nxt h'') v True)), h''\<lparr>nxt := Suc (nxt h'')\<rparr>)
      | (Inl e, h'') \<Rightarrow> (Inr (OptV None_opt), h''))"
  by (simp add: safe_def bind_def ret_def Some_opt_def new_OptionType_def
      split: prod.splits sum.splits)

lemma returns_safe:
  "returns (safe H fn args) h =
     (case instanceof_Promise H fn h of
        (Inl e, h') \<Rightarrow> False
      | (Inr p, h') \<Rightarrow>
          if p then returns (then_value H fn Some_opt (\<lambda>u. ret None_opt)) h' else True)"
  by (simp add: safe_def bind_def ret_def returns_def Some_opt_def new_OptionType_def
      split: prod.splits sum.splits)

text \<open>
  C8, as the code has it. Let \<open>fn instanceof Promise\<close> evaluate to false, as it does
  for every function that is neither a proxy nor has \<open>Promise.prototype\<close> in its
  prototype chain. Then \<open>Option.safe(fn, ...args)\<close> calls \<open>fn\<close> on \<open>args\<close>. When the
  call returns \<open>v\<close>, \<open>safe\<close> returns a new \<open>Some\<close> with payload \<open>v\<close>; when the call
  throws, \<open>safe\<close> returns \<open>None\<close>. In both cases the effects of the call on the heap
  stay, and \<open>safe\<close> does not throw.
\<close>

theorem safe_captures:
  "(instanceof_Promise H fn h = (Inr False, h') \<and> call_value H fn args h' = (Inr v, h'') \<longrightarrow>
      safe H fn args h = (Inr (OptV (OptionType (nxt h'') v True)), h''\<lparr>nxt := Suc (nxt h'')\<rparr>))
   \<and> (instanceof_Promise H fn h = (Inr False, h') \<and> call_value H fn args h' = (Inl e, h'') \<longrightarrow>
      safe H fn args h = (Inr (OptV None_opt), h''))
   \<and> (instanceof_Promise H fn h = (Inr False, h') \<longrightarrow> returns (safe H fn args) h)"
  by (simp add: safe_not_Promise returns_safe)

text \<open>\<open>safe(mightThrow, true)\<close> is \<open>None\<close> and \<open>safe(mightThrow, false)\<close> is
  \<open>Some("Hello World")\<close>.\<close>

theorem safe_captures_witness:
  "instanceof_Promise function_host (Obj 7) init_heap = (Inr False, init_heap)
   \<and> call_value function_host (Obj 7) [Bool True] init_heap =
       (Inl (ErrorObject ''Error'' ''Throw''), init_heap)
   \<and> safe function_host (Obj 7) [Bool True] init_heap = (Inr (OptV None_opt), init_heap)
   \<and> call_value function_host (Obj 7) [Bool False] init_heap =
       (Inr (Str ''Hello World''), init_heap)
   \<and> fst (safe function_host (Obj 7) [Bool False] init_heap) =
       Inr (OptV (OptionType 1 (Str ''Hello World'') True))
   \<and> returns (safe function_host (Obj 7) [Bool True]) init_heap"
proof -
  have p: "instanceof_Promise function_host (Obj 7) init_heap = (Inr False, init_heap)"
    by (simp add: function_host_def plain_host_def ret_def)
  have t: "call_value function_host (Obj 7) [Bool True] init_heap =
      (Inl (ErrorObject ''Error'' ''Throw''), init_heap)"
    by (simp add: function_host_def plain_host_def mightThrow_def throw_def)
  have f: "call_value function_host (Obj 7) [Bool False] init_heap =
      (Inr (Str ''Hello World''), init_heap)"
    by (simp add: function_host_def plain_host_def mightThrow_def ret_def)
  note thrown = safe_captures [where H = function_host and fn = "Obj 7"
      and args = "[Bool True]" and h = init_heap and h' = init_heap and h'' = init_heap
      and e = "ErrorObject ''Error'' ''Throw''"]
  note returned = safe_captures [where H = function_host and fn = "Obj 7"
      and args = "[Bool False]" and h = init_heap and h' = init_heap and h'' = init_heap
      and v = "Str ''Hello World''"]
  show ?thesis
    using p t f thrown [THEN conjunct2, THEN conjunct1] thrown [THEN conjunct2, THEN conjunct2]
      returned [THEN conjunct1]
    by (simp add: init_heap_def)
qed

text \<open>For a function with \<open>Promise.prototype\<close> in its prototype chain, \<open>safe\<close> does
  not call the function: it calls \<open>fn.then\<close>, which raises a \<open>TypeError\<close>, although
  the function itself would have returned. For a proxy of a function, the test
  \<open>fn instanceof Promise\<close> runs the \<open>getPrototypeOf\<close> trap, and what the trap throws
  leaves \<open>safe\<close>.\<close>

theorem safe_Promise_test_counterexample:
  "call_value promise_chain_host (Obj 7) [Bool False] init_heap =
     (Inr (Str ''Hello World''), init_heap)
   \<and> safe promise_chain_host (Obj 7) [Bool False] init_heap = (Inl TypeError, init_heap)
   \<and> call_value proxy_host (Obj 7) [Bool False] init_heap =
       (Inr (Str ''Hello World''), init_heap)
   \<and> safe proxy_host (Obj 7) [Bool False] init_heap = (Inl (Thrown (Str ''trap'')), init_heap)"
  by (simp add: safe_def bind_def promise_chain_host_def function_host_def plain_host_def
      proxy_host_def mightThrow_def ret_def throw_def)

section \<open>Laziness\<close>

text \<open>
  C9. On a receiver that is not \<open>Some\<close>, \<open>None\<close> in particular, \<open>andThen(f)\<close> returns
  \<open>None\<close>; on a \<open>Some\<close>, \<open>orElse(g)\<close> returns the receiver itself and
  \<open>unwrapOrElse(g)\<close> its payload. In each case the result and the heap are the same
  for every function, also for one that would throw or allocate: the function is
  not called.
\<close>

theorem else_combinators_lazy:
  "andThen (OptionType a v False) f h = (Inr (OptV None_opt), h)
   \<and> andThen None_opt f h = (Inr (OptV None_opt), h)
   \<and> orElse (OptionType a v True) g h = (Inr (OptV (OptionType a v True)), h)
   \<and> unwrapOrElse (OptionType a v True) g h = (Inr v, h)"
  by (simp add: andThen_def orElse_def unwrapOrElse_def ret_def None_opt_def)

theorem else_combinators_lazy_witness:
  "andThen None_opt (\<lambda>v. throw TypeError) init_heap = (Inr (OptV None_opt), init_heap)
   \<and> andThen None_opt fresh_object init_heap = (Inr (OptV None_opt), init_heap)
   \<and> orElse (OptionType 1 (Num (Finite 10)) True) (throw TypeError) init_heap =
       (Inr (OptV (OptionType 1 (Num (Finite 10)) True)), init_heap)
   \<and> unwrapOrElse (OptionType 1 (Num (Finite 10)) True) (fresh_object Null) init_heap =
       (Inr (Num (Finite 10)), init_heap)"
  using else_combinators_lazy [where f = "\<lambda>v. throw TypeError" and h = init_heap]
    else_combinators_lazy [where f = fresh_object and h = init_heap and a = 1
      and v = "Num (Finite 10)" and g = "throw TypeError"]
    else_combinators_lazy [where h = init_heap and a = 1
      and v = "Num (Finite 10)" and g = "fresh_object Null"]
  by simp

section \<open>Which operations can throw\<close>



























end
